theory Spec2Isabelle
  imports Main
begin

section \<open>ogrinfo: opening the data source (apps/ogrinfo\_bin.cpp)\<close>

text \<open>
  The development embeds the part of \<^verbatim>\<open>main\<close> that opens the data source, retries,
  reports and computes the exit status (the block from \<^verbatim>\<open>int nFlags = GDAL_OF_VECTOR\<close>
  to \<^verbatim>\<open>exit(nRet)\<close>), in the regular build, where \<^verbatim>\<open>__AFL_HAVE_MANUAL_CONTROL\<close>
  is not defined. The options structure has been filled by the argument parser and the
  data source name is not empty when this block is reached.
\<close>

subsection \<open>Data\<close>

text \<open>
  Modelled from the spec: the macros \<^verbatim>\<open>GDAL_OF_VECTOR\<close>, \<^verbatim>\<open>GDAL_OF_READONLY\<close>,
  \<^verbatim>\<open>GDAL_OF_UPDATE\<close> and \<^verbatim>\<open>GDAL_OF_VERBOSE_ERROR\<close> are declared in a header that
  is not among the sources. The spec's OpenFlagSet is a set of the capability bits
  Vector, ReadOnly, Update, VerboseError; \<^verbatim>\<open>nFlags\<close> is such a set and \<^verbatim>\<open>|\<close> is
  union.
\<close>

datatype open_flag =
  GDAL_OF_VECTOR | GDAL_OF_READONLY | GDAL_OF_UPDATE | GDAL_OF_VERBOSE_ERROR

text \<open>Pointers returned by the library: an address, \<open>None\<close> for \<^verbatim>\<open>nullptr\<close>.\<close>

type_synonym GDALDataset = nat
type_synonym GDALDriverH = nat

text \<open>The fields of \<^verbatim>\<open>GDALVectorInfoOptionsForBinary\<close> that \<^verbatim>\<open>main\<close> reads.\<close>

record GDALVectorInfoOptionsForBinary =
  osFilename :: string
  bVerbose :: bool
  bReadOnly :: bool
  bUpdate :: bool
  osSQLStatement :: string
  aosOpenOptions :: "string list"

text \<open>
  The library functions \<^verbatim>\<open>GDALIdentifyDriverEx\<close> (the spec's
  DriverRegistry.ProbeVector), \<^verbatim>\<open>GDALDataset::Open\<close> (DataSourceOpener.Open) and
  \<^verbatim>\<open>GDALVectorInfo\<close> (ReportRenderer.Describe) are not among the sources. They are
  parameters of the model: each reads the state \<open>'w\<close> of the outside world (file system,
  driver registry), answers, and leaves a new state, so two calls with the same arguments
  may answer differently. \<open>'o\<close> is the type of the parsed \<^verbatim>\<open>GDALVectorInfoOptions\<close>.
  The \<open>string list option\<close> arguments are the allowed-drivers and sibling-files lists,
  for which \<^verbatim>\<open>main\<close> passes \<^verbatim>\<open>nullptr\<close>.

  The same holds of the destructor behind \<^verbatim>\<open>delete poDS\<close> and of the library calls
  that end \<^verbatim>\<open>main\<close>; they answer nothing that \<^verbatim>\<open>main\<close> reads, so they only take
  the world to a new state. The standard error stream belongs to the outside world:
  \<open>library_stderr g w w'\<close> is what the library wrote to it, on its own account, while it
  took the world from \<open>w\<close> to \<open>w'\<close> (the errors it reports on a failed open under
  \<^verbatim>\<open>GDAL_OF_VERBOSE_ERROR\<close>, the list that \<^verbatim>\<open>GDALDumpOpenDatasets(stderr)\<close> prints
  of the datasets still open).
\<close>

record ('w, 'o) gdal =
  GDALIdentifyDriverEx ::
    "'w \<Rightarrow> string \<Rightarrow> open_flag set \<Rightarrow> string list option \<Rightarrow> string list option
      \<Rightarrow> GDALDriverH option \<times> 'w"
  GDALDataset_Open ::
    "'w \<Rightarrow> string \<Rightarrow> open_flag set \<Rightarrow> string list option \<Rightarrow> string list
      \<Rightarrow> string list option \<Rightarrow> GDALDataset option \<times> 'w"
  GDALVectorInfo ::
    "'w \<Rightarrow> GDALDataset \<Rightarrow> 'o \<Rightarrow> string option \<times> 'w"
  GDALDataset_delete :: "'w \<Rightarrow> GDALDataset \<Rightarrow> 'w"
  GDALDumpOpenDatasets :: "'w \<Rightarrow> 'w"
  GDALDestroyDriverManager :: "'w \<Rightarrow> 'w"
  CPLDumpSharedList :: "'w \<Rightarrow> 'w"
  GDALDestroy :: "'w \<Rightarrow> 'w"
  library_stderr :: "'w \<Rightarrow> 'w \<Rightarrow> string list"

text \<open>
  What \<^verbatim>\<open>main\<close> does that is visible from outside, in order: the library calls with
  their arguments and answers, the strings written to the two streams, and the release of
  the dataset.
\<close>

datatype event =
    is_Identify: Identify string "open_flag set" "string list option" "string list option"
      "GDALDriverH option"
  | is_Open: Open (open_path: string) (open_flags: "open_flag set")
      (open_drivers: "string list option") (open_options: "string list")
      (open_siblings: "string list option") (open_result: "GDALDataset option")
  | is_VectorInfo: VectorInfo GDALDataset "string option"
  | is_Stdout: Stdout (stdout_text: string)
  | is_Stderr: Stderr (stderr_text: string)
  | is_Delete: Delete GDALDataset

text \<open>
  The standard error stream of the process, in order: each string with who wrote it,
  \<^verbatim>\<open>main\<close> itself or the library.
\<close>

datatype origin = Tool | Library

record 'w run =
  world :: 'w
  trace :: "event list"
  stderr_stream :: "(origin \<times> string) list"

subsection \<open>Calls and output, with their record in the trace\<close>

definition log :: "event \<Rightarrow> 'w run \<Rightarrow> 'w run" where
  "log e s = s\<lparr>trace := trace s @ [e]\<rparr>"

text \<open>The library takes the world to \<open>w\<close> and writes what it writes.\<close>

definition library_wrote :: "('w, 'o) gdal \<Rightarrow> 'w \<Rightarrow> 'w run \<Rightarrow> 'w run" where
  "library_wrote g w s =
     s\<lparr>world := w,
       stderr_stream := stderr_stream s @ map (Pair Library) (library_stderr g (world s) w)\<rparr>"

text \<open>\<^verbatim>\<open>fprintf(stderr, ...)\<close> in \<^verbatim>\<open>main\<close>.\<close>

definition fprintf_stderr :: "string \<Rightarrow> 'w run \<Rightarrow> 'w run" where
  "fprintf_stderr msg s =
     log (Stderr msg) (s\<lparr>stderr_stream := stderr_stream s @ [(Tool, msg)]\<rparr>)"

definition call_Identify ::
  "('w, 'o) gdal \<Rightarrow> string \<Rightarrow> open_flag set \<Rightarrow> 'w run \<Rightarrow> GDALDriverH option \<times> 'w run" where
  "call_Identify g path flags s =
     (case GDALIdentifyDriverEx g (world s) path flags None None of
        (r, w) \<Rightarrow> (r, log (Identify path flags None None r) (library_wrote g w s)))"

definition call_Open ::
  "('w, 'o) gdal \<Rightarrow> string \<Rightarrow> open_flag set \<Rightarrow> string list \<Rightarrow> 'w run
    \<Rightarrow> GDALDataset option \<times> 'w run" where
  "call_Open g path flags oo s =
     (case GDALDataset_Open g (world s) path flags None oo None of
        (r, w) \<Rightarrow> (r, log (Open path flags None oo None r) (library_wrote g w s)))"

definition call_VectorInfo ::
  "('w, 'o) gdal \<Rightarrow> GDALDataset \<Rightarrow> 'o \<Rightarrow> 'w run \<Rightarrow> string option \<times> 'w run" where
  "call_VectorInfo g h psOptions s =
     (case GDALVectorInfo g (world s) h psOptions of
        (r, w) \<Rightarrow> (r, log (VectorInfo h r) (library_wrote g w s)))"

text \<open>\<^verbatim>\<open>"Had to open data source read-only.\n"\<close>\<close>

definition had_to_open_read_only :: string where
  "had_to_open_read_only = ''Had to open data source read-only.'' @ [CHR 0x0A]"

text \<open>\<^verbatim>\<open>"ogrinfo failed - unable to open '%s'.\n"\<close> with the file name for \<^verbatim>\<open>%s\<close>\<close>

definition unable_to_open :: "string \<Rightarrow> string" where
  "unable_to_open path =
     ''ogrinfo failed - unable to open '' @ [CHR 0x27] @ path @ [CHR 0x27] @ ''.'' @ [CHR 0x0A]"

subsection \<open>The block of main\<close>

text \<open>
  The result is \<^verbatim>\<open>nRet\<close>, the argument of \<^verbatim>\<open>exit\<close>, and the run. The trace ends
  with \<^verbatim>\<open>delete poDS\<close>. The library calls after it take no part in \<^verbatim>\<open>nRet\<close> and
  \<^verbatim>\<open>main\<close> itself writes nothing there: they act on the world, and on the standard
  error stream with what the library writes. \<^verbatim>\<open>GDALVectorInfoOptionsFree\<close> and
  \<^verbatim>\<open>CSLDestroy\<close> only free the memory of the options and of the argument list.
\<close>

definition main ::
  "('w, 'o) gdal \<Rightarrow> 'o \<Rightarrow> GDALVectorInfoOptionsForBinary \<Rightarrow> 'w run \<Rightarrow> int \<times> 'w run" where
  "main g psOptions psOptionsForBinary s0 =
    (let
       nFlags = {GDAL_OF_VECTOR};
       bMayRetryUpdateMode = False;
       (nFlags, bMayRetryUpdateMode, s1) =
         (if bUpdate psOptionsForBinary then
            (nFlags \<union> {GDAL_OF_UPDATE, GDAL_OF_VERBOSE_ERROR}, bMayRetryUpdateMode, s0)
          else if bReadOnly psOptionsForBinary then
            (nFlags \<union> {GDAL_OF_READONLY, GDAL_OF_VERBOSE_ERROR}, bMayRetryUpdateMode, s0)
          else if osSQLStatement psOptionsForBinary = [] then
            (let nFlags = nFlags \<union> {GDAL_OF_READONLY} in
             case call_Identify g (osFilename psOptionsForBinary) {GDAL_OF_VECTOR} s0 of
               (Some drv, s) \<Rightarrow> (nFlags, True, s)
             | (None, s) \<Rightarrow> (nFlags \<union> {GDAL_OF_VERBOSE_ERROR}, bMayRetryUpdateMode, s))
          else
            (nFlags \<union> {GDAL_OF_UPDATE, GDAL_OF_VERBOSE_ERROR}, bMayRetryUpdateMode, s0));
       (poDS, s2) =
         call_Open g (osFilename psOptionsForBinary) nFlags
           (aosOpenOptions psOptionsForBinary) s1;
       (poDS, s3) =
         (if poDS = None \<and> \<not> bReadOnly psOptionsForBinary \<and> \<not> bUpdate psOptionsForBinary then
            (if osSQLStatement psOptionsForBinary = [] \<and> bMayRetryUpdateMode then
               call_Open g (osFilename psOptionsForBinary) {GDAL_OF_UPDATE, GDAL_OF_VECTOR}
                 (aosOpenOptions psOptionsForBinary) s2
             else if osSQLStatement psOptionsForBinary \<noteq> [] then
               (case call_Open g (osFilename psOptionsForBinary)
                       {GDAL_OF_READONLY, GDAL_OF_VECTOR}
                       (aosOpenOptions psOptionsForBinary) s2 of
                  (poDS, s) \<Rightarrow>
                    if poDS \<noteq> None \<and> bVerbose psOptionsForBinary then
                      (poDS, log (Stdout had_to_open_read_only) s)
                    else (poDS, s))
             else (poDS, s2))
          else (poDS, s2));
       nRet = 0;
       (nRet, s4) =
         (case poDS of
            None \<Rightarrow>
              (1, fprintf_stderr (unable_to_open (osFilename psOptionsForBinary)) s3)
          | Some h \<Rightarrow>
              (case call_VectorInfo g h psOptions s3 of
                 (Some pszGDALVectorInfoOutput, s) \<Rightarrow>
                   (nRet, log (Stdout pszGDALVectorInfoOutput) s)
               | (None, s) \<Rightarrow> (1, s)));
       s5 = (case poDS of
               None \<Rightarrow> s4
             | Some h \<Rightarrow> log (Delete h) (library_wrote g (GDALDataset_delete g (world s4) h) s4));
       s6 = library_wrote g (GDALDumpOpenDatasets g (world s5)) s5;
       s7 = library_wrote g (GDALDestroyDriverManager g (world s6)) s6;
       s8 = library_wrote g (CPLDumpSharedList g (world s7)) s7;
       s9 = library_wrote g (GDALDestroy g (world s8)) s8
     in (nRet, s9))"

subsection \<open>Reading a run\<close>

text \<open>The calls of the opener, the probes, and what main wrote to each stream.\<close>

definition opens :: "event list \<Rightarrow> event list" where
  "opens tr = filter is_Open tr"

definition probes :: "event list \<Rightarrow> event list" where
  "probes tr = filter is_Identify tr"

definition stdout_of :: "event list \<Rightarrow> string list" where
  "stdout_of tr = map stdout_text (filter is_Stdout tr)"

definition stderr_of :: "event list \<Rightarrow> string list" where
  "stderr_of tr = map stderr_text (filter is_Stderr tr)"


text \<open>A fresh run: nothing has happened yet.\<close>

definition start :: "'w \<Rightarrow> 'w run" where
  "start w = \<lparr>world = w, trace = [], stderr_stream = []\<rparr>"

definition ogrinfo ::
  "('w, 'o) gdal \<Rightarrow> 'o \<Rightarrow> GDALVectorInfoOptionsForBinary \<Rightarrow> 'w \<Rightarrow> int \<times> event list" where
  "ogrinfo g psOptions psOptionsForBinary w =
     (case main g psOptions psOptionsForBinary (start w) of (nRet, s) \<Rightarrow> (nRet, trace s))"


subsection \<open>The spec's degraded flag\<close>

text \<open>
  Following the spec's data model (NegotiationResult): \<open>degraded\<close> is true when the final
  successful open used read-only semantics after an attempt with Update had failed, that
  is, after the fallback to read-only. \<^verbatim>\<open>main\<close> keeps no such variable; the definition
  reads it off the calls of the opener.
\<close>

definition spec_degraded :: "event list \<Rightarrow> bool" where
  "spec_degraded tr =
     (case opens tr of
        [a, c] \<Rightarrow>
          GDAL_OF_UPDATE \<in> open_flags a \<and> open_result a = None \<and>
          GDAL_OF_READONLY \<in> open_flags c \<and> open_result c \<noteq> None
      | _ \<Rightarrow> False)"


subsection \<open>Example data sources and options\<close>

text \<open>
  A data source that the driver registry recognises or not, that opens read-only or not,
  that opens for update or not, and whose report is the given string (\<open>None\<close> when the
  renderer fails). The world is a counter of the library calls made so far, and the
  library writes nothing to the standard error.
\<close>

definition source :: "bool \<Rightarrow> bool \<Rightarrow> bool \<Rightarrow> string option \<Rightarrow> (nat, unit) gdal" where
  "source recognised readable writable report =
     \<lparr>GDALIdentifyDriverEx =
        (\<lambda>w path flags drivers files. (if recognised then Some 1 else None, Suc w)),
      GDALDataset_Open =
        (\<lambda>w path flags drivers oo siblings.
           (if (if GDAL_OF_UPDATE \<in> flags then writable else readable) then Some 2 else None,
            Suc w)),
      GDALVectorInfo = (\<lambda>w h po. (report, Suc w)),
      GDALDataset_delete = (\<lambda>w h. Suc w),
      GDALDumpOpenDatasets = Suc,
      GDALDestroyDriverManager = Suc,
      CPLDumpSharedList = Suc,
      GDALDestroy = Suc,
      library_stderr = (\<lambda>w w'. [])\<rparr>"



text \<open>The options after parsing \<^verbatim>\<open>ogrinfo <path>\<close>.\<close>

definition options :: "string \<Rightarrow> GDALVectorInfoOptionsForBinary" where
  "options path =
     \<lparr>osFilename = path, bVerbose = True, bReadOnly = False, bUpdate = False,
      osSQLStatement = [], aosOpenOptions = []\<rparr>"

text \<open>The options after parsing \<^verbatim>\<open>ogrinfo -sql "SELECT 1" <path>\<close>.\<close>

definition query_options :: "string \<Rightarrow> GDALVectorInfoOptionsForBinary" where
  "query_options path = (options path)\<lparr>osSQLStatement := ''SELECT 1''\<rparr>"

text \<open>
  Scenario A of the spec, a recognised but empty container: it opens for update only.
  Scenario B, a source mounted read-only: it opens read-only only.
  Scenario C, a path that no driver recognises and that does not open.
  A source that opens in both modes, and one whose report cannot be rendered.
\<close>

definition empty_container :: "(nat, unit) gdal" where
  "empty_container = source True False True (Some ''Layer name: roads'')"

definition read_only_mount :: "(nat, unit) gdal" where
  "read_only_mount = source True True False (Some ''Layer name: roads'')"

definition unrecognised :: "(nat, unit) gdal" where
  "unrecognised = source False False False None"



section \<open>Properties\<close>

subsection \<open>Auxiliary facts\<close>

lemma nFlags_update:
  "{GDAL_OF_VECTOR} \<union> {GDAL_OF_UPDATE, GDAL_OF_VERBOSE_ERROR} =
   {GDAL_OF_VECTOR, GDAL_OF_UPDATE, GDAL_OF_VERBOSE_ERROR}"
  by blast

lemma nFlags_readonly:
  "{GDAL_OF_VECTOR} \<union> {GDAL_OF_READONLY, GDAL_OF_VERBOSE_ERROR} =
   {GDAL_OF_VECTOR, GDAL_OF_READONLY, GDAL_OF_VERBOSE_ERROR}"
  by blast

lemma nFlags_default:
  "{GDAL_OF_VECTOR} \<union> {GDAL_OF_READONLY} = {GDAL_OF_VECTOR, GDAL_OF_READONLY}"
  by blast

lemma nFlags_default_verbose:
  "{GDAL_OF_VECTOR, GDAL_OF_READONLY} \<union> {GDAL_OF_VERBOSE_ERROR} =
   {GDAL_OF_VECTOR, GDAL_OF_READONLY, GDAL_OF_VERBOSE_ERROR}"
  by blast


lemmas nFlags_eqs = nFlags_update nFlags_readonly nFlags_default nFlags_default_verbose

text \<open>What each step leaves in the run.\<close>

lemma run_sel:
  "trace (log e s) = trace s @ [e]"
  "world (log e s) = world s"
  "stderr_stream (log e s) = stderr_stream s"
  "trace (library_wrote g w s) = trace s"
  "world (library_wrote g w s) = w"
  "stderr_stream (library_wrote g w s) =
     stderr_stream s @ map (Pair Library) (library_stderr g (world s) w)"
  "trace (fprintf_stderr msg s) = trace s @ [Stderr msg]"
  "world (fprintf_stderr msg s) = world s"
  "stderr_stream (fprintf_stderr msg s) = stderr_stream s @ [(Tool, msg)]"
  "trace (start u) = []"
  "world (start u) = u"
  "stderr_stream (start u) = []"
  by (simp_all add: log_def library_wrote_def fprintf_stderr_def start_def)

lemmas run_defs = ogrinfo_def main_def call_Open_def call_Identify_def call_VectorInfo_def
  Let_def



subsection \<open>Default intent with a query\<close>




subsection \<open>Default intent without a query\<close>

text \<open>
  Claim C2. When neither flag is set and no SQL statement is attached, the driver is
  identified first and the primary open uses ReadOnly. If a driver was identified the
  primary flags carry no VerboseError and a failed primary open is followed by exactly one
  open with Update; if no driver was identified the primary flags carry VerboseError and
  the primary open is the only one.
\<close>

theorem default_fallback_update:
  assumes "\<not> bUpdate b" and "\<not> bReadOnly b" and "osSQLStatement b = []"
    and "ogrinfo g po b w = (nRet, tr)"
    and "GDALIdentifyDriverEx g w (osFilename b) {GDAL_OF_VECTOR} None None = (d, w0)"
    and "GDALDataset_Open g w0 (osFilename b)
           (if d = None then {GDAL_OF_VECTOR, GDAL_OF_READONLY, GDAL_OF_VERBOSE_ERROR}
            else {GDAL_OF_VECTOR, GDAL_OF_READONLY})
           None (aosOpenOptions b) None
         = (r1, w1)"
    and "GDALDataset_Open g w1 (osFilename b)
           {GDAL_OF_UPDATE, GDAL_OF_VECTOR} None (aosOpenOptions b) None
         = (r2, w2)"
  shows "opens tr =
           Open (osFilename b)
             (if d = None then {GDAL_OF_VECTOR, GDAL_OF_READONLY, GDAL_OF_VERBOSE_ERROR}
              else {GDAL_OF_VECTOR, GDAL_OF_READONLY})
             None (aosOpenOptions b) None r1 #
           (if d \<noteq> None \<and> r1 = None
            then [Open (osFilename b) {GDAL_OF_UPDATE, GDAL_OF_VECTOR} None
                    (aosOpenOptions b) None r2]
            else [])"
  using assms unfolding run_defs nFlags_eqs
  by (auto simp: run_sel opens_def simp del: Un_insert_left Un_insert_right
      split: prod.splits option.splits if_splits)

text \<open>Scenario A: the container is recognised and opens for update only.\<close>

theorem default_fallback_update_witness:
  "opens (snd (ogrinfo empty_container () (options ''empty.gpkg'') 0)) =
     [Open ''empty.gpkg'' {GDAL_OF_VECTOR, GDAL_OF_READONLY} None [] None None,
      Open ''empty.gpkg'' {GDAL_OF_UPDATE, GDAL_OF_VECTOR} None [] None (Some 2)]"
proof -
  let ?b = "options ''empty.gpkg''"
  have run: "ogrinfo empty_container () ?b 0 =
      (fst (ogrinfo empty_container () ?b 0), snd (ogrinfo empty_container () ?b 0))"
    by simp
  have intent: "\<not> bUpdate ?b" "\<not> bReadOnly ?b" "osSQLStatement ?b = []"
    by (simp_all add: empty_container_def source_def options_def)
  have probe: "GDALIdentifyDriverEx empty_container 0 (osFilename ?b) {GDAL_OF_VECTOR}
      None None = (Some 1, 1)"
    by (simp add: empty_container_def source_def options_def)
  have primary: "GDALDataset_Open empty_container 1 (osFilename ?b)
      (if Some (1::nat) = None then {GDAL_OF_VECTOR, GDAL_OF_READONLY, GDAL_OF_VERBOSE_ERROR}
       else {GDAL_OF_VECTOR, GDAL_OF_READONLY})
      None (aosOpenOptions ?b) None = (None, 2)"
    by (simp add: empty_container_def source_def options_def)
  have fallback: "GDALDataset_Open empty_container 2 (osFilename ?b)
      {GDAL_OF_UPDATE, GDAL_OF_VECTOR} None (aosOpenOptions ?b) None = (Some 2, 3)"
    by (simp add: empty_container_def source_def options_def)
  from default_fallback_update [OF intent run probe primary fallback]
  show ?thesis by (simp add: empty_container_def source_def options_def)
qed


subsection \<open>Explicit intent\<close>

text \<open>
  Claim C3. When exactly one of \<^verbatim>\<open>bUpdate\<close> and \<^verbatim>\<open>bReadOnly\<close> is set, the opener is
  called exactly once, whatever it answers: under \<^verbatim>\<open>bReadOnly\<close> with flags that do not
  contain Update, under \<^verbatim>\<open>bUpdate\<close> with flags that do not contain ReadOnly.
\<close>

theorem explicit_intent_single_open:
  assumes "bUpdate b \<noteq> bReadOnly b"
    and "ogrinfo g po b w = (nRet, tr)"
  shows "(\<exists>r. opens tr =
            [Open (osFilename b)
               (if bUpdate b then {GDAL_OF_VECTOR, GDAL_OF_UPDATE, GDAL_OF_VERBOSE_ERROR}
                else {GDAL_OF_VECTOR, GDAL_OF_READONLY, GDAL_OF_VERBOSE_ERROR})
               None (aosOpenOptions b) None r])
         \<and> (bReadOnly b \<longrightarrow> GDAL_OF_UPDATE \<notin> open_flags (hd (opens tr)))
         \<and> (bUpdate b \<longrightarrow> GDAL_OF_READONLY \<notin> open_flags (hd (opens tr)))"
  using assms unfolding run_defs nFlags_eqs
  by (auto simp: run_sel opens_def simp del: Un_insert_left Un_insert_right
      split: prod.splits option.splits if_splits)

text \<open>
  Scenario D: update is requested on a source that opens read-only only. The single open
  fails and nothing else is tried.
\<close>

theorem explicit_intent_single_open_witness:
  "bUpdate ((options ''ro.gpkg'')\<lparr>bUpdate := True\<rparr>)
   \<and> ogrinfo read_only_mount () ((options ''ro.gpkg'')\<lparr>bUpdate := True\<rparr>) 0 =
       (1, [Open ''ro.gpkg'' {GDAL_OF_VECTOR, GDAL_OF_UPDATE, GDAL_OF_VERBOSE_ERROR}
              None [] None None,
            Stderr (unable_to_open ''ro.gpkg'')])
   \<and> GDAL_OF_READONLY \<notin> open_flags (hd (opens
        [Open ''ro.gpkg'' {GDAL_OF_VECTOR, GDAL_OF_UPDATE, GDAL_OF_VERBOSE_ERROR}
           None [] None None,
         Stderr (unable_to_open ''ro.gpkg'')]))"
proof -
  let ?b = "(options ''ro.gpkg'')\<lparr>bUpdate := True\<rparr>"
  have intent: "bUpdate ?b \<noteq> bReadOnly ?b"
    by (simp add: read_only_mount_def source_def options_def)
  have run: "ogrinfo read_only_mount () ?b 0 =
      (1, [Open ''ro.gpkg'' {GDAL_OF_VECTOR, GDAL_OF_UPDATE, GDAL_OF_VERBOSE_ERROR}
             None [] None None,
           Stderr (unable_to_open ''ro.gpkg'')])"
    unfolding run_defs nFlags_eqs
    by (simp add: run_sel read_only_mount_def source_def options_def del: Un_insert_left Un_insert_right)
  from explicit_intent_single_open [OF intent run] run
  show ?thesis by (simp add: read_only_mount_def source_def options_def)
qed

subsection \<open>The advisory\<close>

text \<open>
  Claim C4 as stated: whenever the handle comes from the read-only fallback, the advisory
  is written. It fails in quiet mode: with \<^verbatim>\<open>bVerbose\<close> unset the outcome of scenario B
  is degraded, and the only string written to the standard output is the report.
\<close>

theorem advisory_always_counterexample:
  "spec_degraded
     (snd (ogrinfo read_only_mount () ((query_options ''ro.gpkg'')\<lparr>bVerbose := False\<rparr>) 0))
   \<and> stdout_of
     (snd (ogrinfo read_only_mount () ((query_options ''ro.gpkg'')\<lparr>bVerbose := False\<rparr>) 0))
     = [''Layer name: roads'']
   \<and> had_to_open_read_only \<noteq> ''Layer name: roads''"
  unfolding run_defs nFlags_eqs
  by (simp add: run_sel read_only_mount_def source_def query_options_def options_def opens_def
      stdout_of_def spec_degraded_def had_to_open_read_only_def
      del: Un_insert_left Un_insert_right)

text \<open>
  Claim C4, amended. Whenever the handle comes from the read-only fallback, the run is
  the failed Update open, the successful ReadOnly open, the advisory on the standard
  output if and only if \<^verbatim>\<open>bVerbose\<close> is set, then the report and the release of the
  dataset. With \<^verbatim>\<open>bVerbose\<close> unset nothing is written between the fallback open and the
  report.
\<close>

theorem advisory_iff_verbose:
  assumes "ogrinfo g po b w = (nRet, tr)"
    and "spec_degraded tr"
  shows "(\<exists>h rep.
            tr = [Open (osFilename b) {GDAL_OF_VECTOR, GDAL_OF_UPDATE, GDAL_OF_VERBOSE_ERROR}
                    None (aosOpenOptions b) None None,
                  Open (osFilename b) {GDAL_OF_READONLY, GDAL_OF_VECTOR}
                    None (aosOpenOptions b) None (Some h)]
                 @ (if bVerbose b then [Stdout had_to_open_read_only] else [])
                 @ [VectorInfo h rep]
                 @ (case rep of None \<Rightarrow> [] | Some out \<Rightarrow> [Stdout out])
                 @ [Delete h])
         \<and> (tr ! 2 = Stdout had_to_open_read_only) = bVerbose b"
  using assms unfolding run_defs nFlags_eqs
  by (auto simp: run_sel opens_def spec_degraded_def simp del: Un_insert_left Un_insert_right
      split: prod.splits option.splits if_splits; blast)

theorem advisory_iff_verbose_witness:
  "spec_degraded (snd (ogrinfo read_only_mount () (query_options ''ro.gpkg'') 0))
   \<and> snd (ogrinfo read_only_mount () (query_options ''ro.gpkg'') 0) ! 2 =
       Stdout had_to_open_read_only
   \<and> bVerbose (query_options ''ro.gpkg'')"
proof -
  let ?b = "query_options ''ro.gpkg''"
  have run: "ogrinfo read_only_mount () ?b 0 =
      (fst (ogrinfo read_only_mount () ?b 0), snd (ogrinfo read_only_mount () ?b 0))"
    by simp
  have deg: "spec_degraded (snd (ogrinfo read_only_mount () ?b 0))"
    unfolding run_defs nFlags_eqs
    by (simp add: run_sel read_only_mount_def source_def query_options_def options_def opens_def
        spec_degraded_def del: Un_insert_left Un_insert_right)
  have verbose: "bVerbose ?b"
    by (simp add: read_only_mount_def source_def query_options_def options_def)
  from advisory_iff_verbose [OF run deg] deg verbose
  show ?thesis by simp
qed


subsection \<open>Bounded retries\<close>

text \<open>
  Claim C5. For every input the opener is called once or twice, so there is at most one
  fallback. When the last open fails, be it the primary or the fallback, the failure is
  terminal and ordinary: the exit status is 1, the diagnostic is the one string written
  to the standard error and the last thing main does, nothing is written to the standard
  output (no advisory), and the outcome is not degraded.
\<close>

theorem at_most_one_fallback:
  assumes "ogrinfo g po b w = (nRet, tr)"
  shows "opens tr \<noteq> [] \<and> length (opens tr) \<le> 2
         \<and> (open_result (last (opens tr)) = None \<longrightarrow>
              nRet = 1
              \<and> stderr_of tr = [unable_to_open (osFilename b)]
              \<and> last tr = Stderr (unable_to_open (osFilename b))
              \<and> stdout_of tr = []
              \<and> \<not> spec_degraded tr)"
  using assms unfolding run_defs nFlags_eqs
  by (auto simp: run_sel opens_def stderr_of_def stdout_of_def spec_degraded_def simp del:
      Un_insert_left Un_insert_right
      split: prod.splits option.splits if_splits)

text \<open>A query on a path that opens in no mode: both attempts fail.\<close>

theorem at_most_one_fallback_witness:
  "ogrinfo unrecognised () (query_options ''nope'') 0 =
     (1, [Open ''nope'' {GDAL_OF_VECTOR, GDAL_OF_UPDATE, GDAL_OF_VERBOSE_ERROR}
            None [] None None,
          Open ''nope'' {GDAL_OF_READONLY, GDAL_OF_VECTOR} None [] None None,
          Stderr (unable_to_open ''nope'')])
   \<and> length (opens (snd (ogrinfo unrecognised () (query_options ''nope'') 0))) = 2
   \<and> open_result (last (opens (snd (ogrinfo unrecognised () (query_options ''nope'') 0))))
       = None
   \<and> stderr_of (snd (ogrinfo unrecognised () (query_options ''nope'') 0))
       = [unable_to_open ''nope'']
   \<and> \<not> spec_degraded (snd (ogrinfo unrecognised () (query_options ''nope'') 0))"
proof -
  let ?b = "query_options ''nope''"
  have run: "ogrinfo unrecognised () ?b 0 =
     (1, [Open ''nope'' {GDAL_OF_VECTOR, GDAL_OF_UPDATE, GDAL_OF_VERBOSE_ERROR}
            None [] None None,
          Open ''nope'' {GDAL_OF_READONLY, GDAL_OF_VECTOR} None [] None None,
          Stderr (unable_to_open ''nope'')])"
    unfolding run_defs nFlags_eqs
    by (simp add: run_sel unrecognised_def source_def query_options_def options_def del:
        Un_insert_left Un_insert_right)
  have name: "osFilename ?b = ''nope''"
    by (simp add: unrecognised_def source_def query_options_def options_def)
  from at_most_one_fallback [OF run] run name
  show ?thesis by (simp add: opens_def)
qed

subsection \<open>The probe\<close>

text \<open>
  Claim C6. The driver is identified only when neither flag is set and no SQL statement
  is attached: then there is exactly one probe, it is the first thing main does, and the
  primary open follows it directly. In every other case there is no probe at all.
\<close>

theorem probe_only_by_default:
  assumes "ogrinfo g po b w = (nRet, tr)"
    and "GDALIdentifyDriverEx g w (osFilename b) {GDAL_OF_VECTOR} None None = (d, w0)"
  shows "probes tr =
           (if \<not> bUpdate b \<and> \<not> bReadOnly b \<and> osSQLStatement b = []
            then [Identify (osFilename b) {GDAL_OF_VECTOR} None None d] else [])
         \<and> (probes tr \<noteq> [] \<longrightarrow> hd tr = hd (probes tr) \<and> is_Open (tr ! 1))
         \<and> (probes tr = [] \<longrightarrow> is_Open (hd tr))"
  using assms unfolding run_defs nFlags_eqs
  by (auto simp: run_sel probes_def simp del: Un_insert_left Un_insert_right
      split: prod.splits option.splits if_splits)

theorem probe_only_by_default_witness:
  "probes (snd (ogrinfo empty_container () (options ''empty.gpkg'') 0)) =
     [Identify ''empty.gpkg'' {GDAL_OF_VECTOR} None None (Some 1)]
   \<and> hd (snd (ogrinfo empty_container () (options ''empty.gpkg'') 0)) =
       Identify ''empty.gpkg'' {GDAL_OF_VECTOR} None None (Some 1)
   \<and> is_Open (snd (ogrinfo empty_container () (options ''empty.gpkg'') 0) ! 1)
   \<and> probes (snd (ogrinfo empty_container () (query_options ''empty.gpkg'') 0)) = []"
proof -
  let ?b = "options ''empty.gpkg''" and ?q = "query_options ''empty.gpkg''"
  have run: "ogrinfo empty_container () ?b 0 =
      (fst (ogrinfo empty_container () ?b 0), snd (ogrinfo empty_container () ?b 0))"
    by simp
  have run_query: "ogrinfo empty_container () ?q 0 =
      (fst (ogrinfo empty_container () ?q 0), snd (ogrinfo empty_container () ?q 0))"
    by simp
  have probe: "GDALIdentifyDriverEx empty_container 0 (osFilename ?b) {GDAL_OF_VECTOR}
      None None = (Some 1, 1)"
    by (simp add: empty_container_def source_def options_def query_options_def)
  have probe_query: "GDALIdentifyDriverEx empty_container 0 (osFilename ?q) {GDAL_OF_VECTOR}
      None None = (Some 1, 1)"
    by (simp add: empty_container_def source_def options_def query_options_def)
  from probe_only_by_default [OF run probe] probe_only_by_default [OF run_query probe_query]
  show ?thesis by (simp add: empty_container_def source_def options_def query_options_def)
qed


subsection \<open>Exit status and diagnostic\<close>




subsection \<open>The flag sets\<close>

text \<open>
  Claim C8. Every flag set passed to the opener, by the primary attempt or by either
  fallback, contains Vector and exactly one of ReadOnly and Update.
\<close>

theorem open_flags_well_formed:
  assumes "ogrinfo g po b w = (nRet, tr)"
  shows "opens tr \<noteq> []
         \<and> (\<forall>e \<in> set (opens tr).
              GDAL_OF_VECTOR \<in> open_flags e
              \<and> (GDAL_OF_READONLY \<in> open_flags e) \<noteq> (GDAL_OF_UPDATE \<in> open_flags e))"
  using assms unfolding run_defs nFlags_eqs
  by (auto simp: run_sel opens_def simp del: Un_insert_left Un_insert_right
      split: prod.splits option.splits if_splits)

theorem open_flags_well_formed_witness:
  "opens (snd (ogrinfo empty_container () (options ''empty.gpkg'') 0)) =
     [Open ''empty.gpkg'' {GDAL_OF_VECTOR, GDAL_OF_READONLY} None [] None None,
      Open ''empty.gpkg'' {GDAL_OF_UPDATE, GDAL_OF_VECTOR} None [] None (Some 2)]
   \<and> GDAL_OF_VECTOR \<in> {GDAL_OF_VECTOR, GDAL_OF_READONLY}
   \<and> GDAL_OF_READONLY \<in> {GDAL_OF_VECTOR, GDAL_OF_READONLY}
   \<and> GDAL_OF_UPDATE \<notin> {GDAL_OF_VECTOR, GDAL_OF_READONLY}
   \<and> GDAL_OF_VECTOR \<in> {GDAL_OF_UPDATE, GDAL_OF_VECTOR}
   \<and> GDAL_OF_UPDATE \<in> {GDAL_OF_UPDATE, GDAL_OF_VECTOR}
   \<and> GDAL_OF_READONLY \<notin> {GDAL_OF_UPDATE, GDAL_OF_VECTOR}"
proof -
  let ?b = "options ''empty.gpkg''"
  have run: "ogrinfo empty_container () ?b 0 =
     (0, [Identify ''empty.gpkg'' {GDAL_OF_VECTOR} None None (Some 1),
          Open ''empty.gpkg'' {GDAL_OF_VECTOR, GDAL_OF_READONLY} None [] None None,
          Open ''empty.gpkg'' {GDAL_OF_UPDATE, GDAL_OF_VECTOR} None [] None (Some 2),
          VectorInfo 2 (Some ''Layer name: roads''),
          Stdout ''Layer name: roads'', Delete 2])"
    unfolding run_defs nFlags_eqs
    by (simp add: run_sel empty_container_def source_def options_def del: Un_insert_left Un_insert_right)
  from open_flags_well_formed [OF run] run
  show ?thesis by (simp add: opens_def)
qed


subsection \<open>Both flags set\<close>

text \<open>
  Claim C9. When both \<^verbatim>\<open>bUpdate\<close> and \<^verbatim>\<open>bReadOnly\<close> are set, main behaves exactly as
  with \<^verbatim>\<open>bUpdate\<close> alone: the same exit status and the same run. The opener is called
  once, with Vector, Update and VerboseError, and there is no fallback.
\<close>

theorem both_flags_as_update:
  assumes "bUpdate b" and "bReadOnly b"
    and "ogrinfo g po b w = (nRet, tr)"
  shows "ogrinfo g po (b\<lparr>bReadOnly := False\<rparr>) w = (nRet, tr)
         \<and> (\<exists>r. opens tr =
               [Open (osFilename b) {GDAL_OF_VECTOR, GDAL_OF_UPDATE, GDAL_OF_VERBOSE_ERROR}
                  None (aosOpenOptions b) None r])"
proof -
  have same: "ogrinfo g po (b\<lparr>bReadOnly := False\<rparr>) w = ogrinfo g po b w"
    using assms(1) unfolding run_defs
    by (simp add: run_sel cong: option.case_cong prod.case_cong)
  have single: "\<exists>r. opens tr =
      [Open (osFilename b) {GDAL_OF_VECTOR, GDAL_OF_UPDATE, GDAL_OF_VERBOSE_ERROR}
         None (aosOpenOptions b) None r]"
    using assms unfolding run_defs nFlags_eqs
    by (auto simp: run_sel opens_def simp del: Un_insert_left Un_insert_right
        split: prod.splits option.splits if_splits)
  from same single assms(3) show ?thesis by simp
qed

text \<open>Both flags on the source that opens read-only only: one failed Update open.\<close>

theorem both_flags_as_update_witness:
  "ogrinfo read_only_mount ()
     ((options ''ro.gpkg'')\<lparr>bReadOnly := True, bUpdate := True\<rparr>) 0 =
     (1, [Open ''ro.gpkg'' {GDAL_OF_VECTOR, GDAL_OF_UPDATE, GDAL_OF_VERBOSE_ERROR}
            None [] None None,
          Stderr (unable_to_open ''ro.gpkg'')])
   \<and> ogrinfo read_only_mount ()
     ((options ''ro.gpkg'')\<lparr>bReadOnly := True, bUpdate := True, bReadOnly := False\<rparr>) 0 =
     (1, [Open ''ro.gpkg'' {GDAL_OF_VECTOR, GDAL_OF_UPDATE, GDAL_OF_VERBOSE_ERROR}
            None [] None None,
          Stderr (unable_to_open ''ro.gpkg'')])"
proof -
  let ?b = "(options ''ro.gpkg'')\<lparr>bReadOnly := True, bUpdate := True\<rparr>"
  have flags: "bUpdate ?b" "bReadOnly ?b"
    by (simp_all add: read_only_mount_def source_def options_def)
  have run: "ogrinfo read_only_mount () ?b 0 =
     (1, [Open ''ro.gpkg'' {GDAL_OF_VECTOR, GDAL_OF_UPDATE, GDAL_OF_VERBOSE_ERROR}
            None [] None None,
          Stderr (unable_to_open ''ro.gpkg'')])"
    unfolding run_defs nFlags_eqs
    by (simp add: run_sel read_only_mount_def source_def options_def del: Un_insert_left Un_insert_right)
  from both_flags_as_update [OF flags run] run
  show ?thesis by simp
qed

subsection \<open>What the fallback keeps of the primary attempt\<close>

text \<open>
  Claim C10 as stated: only the access bit of the fallback flag set differs from the
  primary one. It fails for the fallback with a query attached: in scenario B the primary
  flag set contains VerboseError and the fallback one does not, so the two differ outside
  the access bits as well.
\<close>

theorem fallback_flags_counterexample:
  "length (opens (snd (ogrinfo read_only_mount () (query_options ''ro.gpkg'') 0))) = 2
   \<and> GDAL_OF_VERBOSE_ERROR \<in>
       open_flags (opens (snd (ogrinfo read_only_mount () (query_options ''ro.gpkg'') 0)) ! 0)
   \<and> GDAL_OF_VERBOSE_ERROR \<notin>
       open_flags (opens (snd (ogrinfo read_only_mount () (query_options ''ro.gpkg'') 0)) ! 1)
   \<and> open_flags (opens (snd (ogrinfo read_only_mount () (query_options ''ro.gpkg'') 0)) ! 0)
       - {GDAL_OF_READONLY, GDAL_OF_UPDATE}
     \<noteq> open_flags (opens (snd (ogrinfo read_only_mount () (query_options ''ro.gpkg'') 0)) ! 1)
       - {GDAL_OF_READONLY, GDAL_OF_UPDATE}"
proof -
  have run: "ogrinfo read_only_mount () (query_options ''ro.gpkg'') 0 =
     (0, [Open ''ro.gpkg'' {GDAL_OF_VECTOR, GDAL_OF_UPDATE, GDAL_OF_VERBOSE_ERROR}
            None [] None None,
          Open ''ro.gpkg'' {GDAL_OF_READONLY, GDAL_OF_VECTOR} None [] None (Some 2),
          Stdout had_to_open_read_only,
          VectorInfo 2 (Some ''Layer name: roads''),
          Stdout ''Layer name: roads'', Delete 2])"
    unfolding run_defs nFlags_eqs
    by (simp add: run_sel read_only_mount_def source_def query_options_def options_def del:
        Un_insert_left Un_insert_right)
  show ?thesis unfolding run by (auto simp: run_sel opens_def)
qed

text \<open>
  Claim C10, amended. Every call of the opener, primary or fallback, passes the file name
  and the open options of the options structure, and no driver or sibling list. A
  fallback never sets VerboseError and its access bit is the opposite of the primary
  one. Apart from the access bits, the fallback flag set is the primary one without
  VerboseError: the primary flag set had VerboseError exactly when a query is attached,
  so the Update fallback differs from its primary attempt in the access bit only, and
  the ReadOnly fallback also drops VerboseError.
\<close>

theorem fallback_keeps_path_and_options:
  assumes "ogrinfo g po b w = (nRet, tr)"
  shows "(\<forall>e \<in> set (opens tr).
            open_path e = osFilename b \<and> open_options e = aosOpenOptions b
            \<and> open_drivers e = None \<and> open_siblings e = None)
         \<and> (\<forall>e \<in> set (tl (opens tr)).
              GDAL_OF_VERBOSE_ERROR \<notin> open_flags e
              \<and> (GDAL_OF_UPDATE \<in> open_flags e) = (GDAL_OF_READONLY \<in> open_flags (hd (opens tr)))
              \<and> (GDAL_OF_READONLY \<in> open_flags e) = (GDAL_OF_UPDATE \<in> open_flags (hd (opens tr)))
              \<and> open_flags e - {GDAL_OF_READONLY, GDAL_OF_UPDATE} =
                  open_flags (hd (opens tr)) - {GDAL_OF_READONLY, GDAL_OF_UPDATE}
                    - {GDAL_OF_VERBOSE_ERROR}
              \<and> (GDAL_OF_VERBOSE_ERROR \<in> open_flags (hd (opens tr)))
                  = (osSQLStatement b \<noteq> []))"
  using assms unfolding run_defs nFlags_eqs
  by (auto simp: run_sel opens_def simp del: Un_insert_left Un_insert_right
      split: prod.splits option.splits if_splits)

text \<open>Scenario A with open options: the Update fallback passes them on unchanged.\<close>

theorem fallback_keeps_path_and_options_witness:
  "opens (snd (ogrinfo empty_container ()
       ((options ''empty.gpkg'')\<lparr>aosOpenOptions := [''LIST_ALL_TABLES=YES'']\<rparr>) 0)) =
     [Open ''empty.gpkg'' {GDAL_OF_VECTOR, GDAL_OF_READONLY} None
        [''LIST_ALL_TABLES=YES''] None None,
      Open ''empty.gpkg'' {GDAL_OF_UPDATE, GDAL_OF_VECTOR} None
        [''LIST_ALL_TABLES=YES''] None (Some 2)]
   \<and> {GDAL_OF_UPDATE, GDAL_OF_VECTOR} - {GDAL_OF_READONLY, GDAL_OF_UPDATE} =
       {GDAL_OF_VECTOR, GDAL_OF_READONLY} - {GDAL_OF_READONLY, GDAL_OF_UPDATE}
         - {GDAL_OF_VERBOSE_ERROR}"
proof -
  let ?b = "(options ''empty.gpkg'')\<lparr>aosOpenOptions := [''LIST_ALL_TABLES=YES'']\<rparr>"
  have run: "ogrinfo empty_container () ?b 0 =
     (0, [Identify ''empty.gpkg'' {GDAL_OF_VECTOR} None None (Some 1),
          Open ''empty.gpkg'' {GDAL_OF_VECTOR, GDAL_OF_READONLY} None
            [''LIST_ALL_TABLES=YES''] None None,
          Open ''empty.gpkg'' {GDAL_OF_UPDATE, GDAL_OF_VECTOR} None
            [''LIST_ALL_TABLES=YES''] None (Some 2),
          VectorInfo 2 (Some ''Layer name: roads''),
          Stdout ''Layer name: roads'', Delete 2])"
    unfolding run_defs nFlags_eqs
    by (simp add: run_sel empty_container_def source_def options_def del: Un_insert_left Un_insert_right)
  from fallback_keeps_path_and_options [OF run] run
  show ?thesis by (simp add: opens_def)
qed

end
